theory Spec2Isabelle
  imports Main
begin

section \<open>Python string operations used by the runner\<close>

text \<open>
  The runner (\<^verbatim>\<open>run_separation.py\<close>) works on the captured standard output with
  \<^verbatim>\<open>str.splitlines()\<close>, the substring test \<^verbatim>\<open>needle in line\<close>,
  \<^verbatim>\<open>line.split(" ")\<close> and \<^verbatim>\<open>token.strip("'.")\<close>. They are modelled on
  \<^typ>\<open>string\<close>; a \<^typ>\<open>char\<close> stands for one code point below 256.
\<close>

fun startswith :: "string \<Rightarrow> string \<Rightarrow> bool" where
  "startswith s [] = True"
| "startswith [] (p # ps) = False"
| "startswith (c # cs) (p # ps) = (c = p \<and> startswith cs ps)"

text \<open>\<^verbatim>\<open>needle in s\<close>: the needle occurs at some position of \<open>s\<close>.\<close>

fun str_in :: "string \<Rightarrow> string \<Rightarrow> bool" where
  "str_in needle [] = (needle = [])"
| "str_in needle (c # cs) = (startswith (c # cs) needle \<or> str_in needle cs)"

text \<open>
  The line boundaries of \<^verbatim>\<open>str.splitlines()\<close> among the code points below 256:
  LF, CR, VT, FF, FS, GS, RS and NEL; CR LF counts as one boundary.
\<close>

definition is_linebreak :: "char \<Rightarrow> bool" where
  "is_linebreak c =
     (c = CHR 0x0A \<or> c = CHR 0x0D \<or> c = CHR 0x0B \<or> c = CHR 0x0C \<or>
      c = CHR 0x1C \<or> c = CHR 0x1D \<or> c = CHR 0x1E \<or> c = CHR 0x85)"

text \<open>
  \<open>splitlines_from acc s\<close>: \<open>acc\<close> holds the current line reversed. A line is
  emitted at each boundary; what is left at the end is emitted only when it is not empty,
  so a final line break opens no empty last line.
\<close>

fun splitlines_from :: "string \<Rightarrow> string \<Rightarrow> string list" where
  "splitlines_from acc [] = (if acc = [] then [] else [rev acc])"
| "splitlines_from acc (c # cs) =
     (if c = CHR 0x0D then
        (case cs of
           [] \<Rightarrow> [rev acc]
         | d # ds \<Rightarrow>
             if d = CHR 0x0A then rev acc # splitlines_from [] ds
             else rev acc # splitlines_from [] (d # ds))
      else if is_linebreak c then rev acc # splitlines_from [] cs
      else splitlines_from (c # acc) cs)"

definition splitlines :: "string \<Rightarrow> string list" where
  "splitlines s = splitlines_from [] s"

text \<open>
  \<^verbatim>\<open>s.split(sep)\<close> for a one-character separator: every occurrence of the separator
  ends a part, so the result is never empty and consecutive separators give empty parts.
\<close>

fun split_on :: "char \<Rightarrow> string \<Rightarrow> string list" where
  "split_on sep [] = [[]]"
| "split_on sep (c # cs) =
     (if c = sep then [] # split_on sep cs
      else (case split_on sep cs of
              [] \<Rightarrow> [[c]]
            | p # ps \<Rightarrow> (c # p) # ps))"

text \<open>\<^verbatim>\<open>s.strip(chars)\<close>: drop leading and trailing characters that occur in \<open>chars\<close>.\<close>

definition strip :: "string \<Rightarrow> string \<Rightarrow> string" where
  "strip chars s =
     rev (dropWhile (\<lambda>c. c \<in> set chars) (rev (dropWhile (\<lambda>c. c \<in> set chars) s)))"

section \<open>The model name read from the tool's output\<close>

text \<open>
  Lines 73 to 81 of \<^verbatim>\<open>run_separation.py\<close>:
  \<^verbatim>\<open>
  model_name = "htdemucs" # Default
  for line in result.stdout.splitlines():
      if "Selected model" in line or "default model" in line:
          parts = line.split(" ")
          if len(parts) > 0:
              model_name = parts[-1].strip("'.")
          break
  \<close>
  The loop is \<open>scan_lines\<close>, with the loop variable \<open>model_name\<close> as its first argument;
  the \<^verbatim>\<open>break\<close> is the branch that does not recurse.
\<close>

definition has_marker :: "string \<Rightarrow> bool" where
  "has_marker line = (str_in ''Selected model'' line \<or> str_in ''default model'' line)"

fun scan_lines :: "string \<Rightarrow> string list \<Rightarrow> string" where
  "scan_lines model_name [] = model_name"
| "scan_lines model_name (line # rest) =
     (if has_marker line then
        (let parts = split_on CHR '' '' line
         in if length parts > 0 then strip [CHR 0x27, CHR ''.''] (last parts) else model_name)
      else scan_lines model_name rest)"

definition infer_model_name :: "string \<Rightarrow> string" where
  "infer_model_name out = scan_lines ''htdemucs'' (splitlines out)"

section \<open>Paths\<close>

text \<open>
  \<^verbatim>\<open>pathlib.Path\<close> on a POSIX system, as far as the program uses it: a path is its
  root (empty, one slash or two slashes) and the list of its components. Parsing drops
  empty components and single-dot components; a double dot is kept.
\<close>

record pure_path =
  root :: string
  tail :: "string list"

definition parse_root :: "string \<Rightarrow> string" where
  "parse_root s =
     (if \<not> startswith s ''/'' then ''''
      else if startswith s ''//'' \<and> \<not> startswith s ''///'' then ''//''
      else ''/'')"

definition Path :: "string \<Rightarrow> pure_path" where
  "Path s =
     \<lparr>root = parse_root s,
      tail = filter (\<lambda>part. part \<noteq> [] \<and> part \<noteq> ''.'') (split_on CHR ''/'' s)\<rparr>"

fun str_join :: "string \<Rightarrow> string list \<Rightarrow> string" where
  "str_join sep [] = []"
| "str_join sep [x] = x"
| "str_join sep (x # y # ys) = x @ sep @ str_join sep (y # ys)"

text \<open>\<^verbatim>\<open>str(p)\<close>: the empty relative path prints as a dot.\<close>

definition path_str :: "pure_path \<Rightarrow> string" where
  "path_str p =
     (if root p = [] \<and> tail p = [] then ''.'' else root p @ str_join ''/'' (tail p))"

text \<open>
  The operator \<^verbatim>\<open>p / s\<close> with a string on the right: an absolute right operand
  replaces the left one, a relative one appends its components.
\<close>

definition joinpath :: "pure_path \<Rightarrow> string \<Rightarrow> pure_path" where
  "joinpath p s =
     (if startswith s ''/'' then Path s
      else \<lparr>root = root p, tail = tail p @ tail (Path s)\<rparr>)"

text \<open>\<^verbatim>\<open>p.name\<close>: the last component, empty when there is none.\<close>

definition path_name :: "pure_path \<Rightarrow> string" where
  "path_name p = (if tail p = [] then [] else last (tail p))"

text \<open>\<^verbatim>\<open>s.rfind(c)\<close>: the index of the last occurrence of \<open>c\<close>, or \<open>-1\<close>.\<close>

definition rfind :: "char \<Rightarrow> string \<Rightarrow> int" where
  "rfind c s =
     (case dropWhile (\<lambda>x. x \<noteq> c) (rev s) of
        [] \<Rightarrow> - 1
      | _ # front \<Rightarrow> int (length front))"

text \<open>
  \<^verbatim>\<open>p.stem\<close>: the name without its last suffix. A dot that starts or ends the name
  opens no suffix (the rule of Python up to 3.13).
\<close>

definition path_stem :: "pure_path \<Rightarrow> string" where
  "path_stem p =
     (let name = path_name p; i = rfind CHR ''.'' name
      in if 0 < i \<and> i < int (length name) - 1 then take (nat i) name else name)"

definition path_parent :: "pure_path \<Rightarrow> pure_path" where
  "path_parent p = \<lparr>root = root p, tail = butlast (tail p)\<rparr>"

section \<open>The file system, exceptions and the process state\<close>

text \<open>
  The file system is what the operating system answers for a path string: nothing, a
  regular file with its bytes, or a directory. Other kinds of nodes, permissions and two
  spellings of one file are outside the model.
\<close>

type_synonym bytes = "nat list"

datatype node = RegularFile bytes | Directory

type_synonym filesystem = "string \<rightharpoonup> node"

definition path_exists :: "filesystem \<Rightarrow> pure_path \<Rightarrow> bool" where
  "path_exists fs p = (fs (path_str p) \<noteq> None)"

definition is_file :: "filesystem \<Rightarrow> pure_path \<Rightarrow> bool" where
  "is_file fs p = (case fs (path_str p) of Some (RegularFile _) \<Rightarrow> True | _ \<Rightarrow> False)"

datatype json = JStr string | JObj "(string \<times> json) list"

text \<open>
  The exceptions that occur: those of \<^verbatim>\<open>subprocess.run\<close> and \<^verbatim>\<open>open\<close>, the
  \<^verbatim>\<open>NameError\<close> of an unbound name, and FastAPI's \<^verbatim>\<open>HTTPException\<close> with its
  status code and detail. All of them are subclasses of \<^verbatim>\<open>Exception\<close>.
\<close>

datatype exn =
    CalledProcessError int "string list" string string
  | FileNotFoundError string
  | IsADirectoryError string
  | NotADirectoryError string
  | OSError string
  | NameError string
  | TypeError string
  | HTTPException nat json

text \<open>
  What running a command does: the executable is not found, starting it fails in another
  way, or it runs and exits with a status, its two output streams and the file system it
  leaves behind.
\<close>

datatype outcome =
    NotFound
  | SpawnError string
  | Exited int string string filesystem

text \<open>
  The surroundings of the program: the external tool, \<^verbatim>\<open>Path.resolve()\<close> (which
  depends on the working directory) and \<^verbatim>\<open>str(e)\<close> of an exception, which the
  libraries define.
\<close>

record runtime =
  tool :: "string list \<Rightarrow> filesystem \<Rightarrow> outcome"
  resolve :: "pure_path \<Rightarrow> string"
  exc_str :: "exn \<Rightarrow> string"

text \<open>
  The state of the running process: the file system, the lines printed so far and the
  commands handed to \<^verbatim>\<open>subprocess.run\<close> so far.
\<close>

record process =
  files :: filesystem
  printed :: "string list"
  run_calls :: "string list list"

definition print :: "string \<Rightarrow> process \<Rightarrow> process" where
  "print line st = st\<lparr>printed := printed st @ [line]\<rparr>"

definition quoted :: "string \<Rightarrow> string" where
  "quoted s = CHR 0x27 # s @ [CHR 0x27]"

record completed_process =
  returncode :: int
  stdout :: string
  stderr :: string

text \<open>
  \<^verbatim>\<open>subprocess.run(command, check=True, capture_output=True, text=True)\<close>: a missing
  executable raises \<^verbatim>\<open>FileNotFoundError\<close>, a non-zero exit status raises
  \<^verbatim>\<open>CalledProcessError\<close> carrying both captured streams.
\<close>

definition subprocess_run ::
  "runtime \<Rightarrow> string list \<Rightarrow> process \<Rightarrow> (exn + completed_process) \<times> process" where
  "subprocess_run rt command st =
     (let st1 = st\<lparr>run_calls := run_calls st @ [command]\<rparr>
      in case tool rt command (files st) of
           NotFound \<Rightarrow>
             (Inl (FileNotFoundError (case command of [] \<Rightarrow> [] | prog # _ \<Rightarrow> prog)), st1)
         | SpawnError msg \<Rightarrow> (Inl (OSError msg), st1)
         | Exited rc out err fs \<Rightarrow>
             if rc \<noteq> 0
             then (Inl (CalledProcessError rc command out err), st1\<lparr>files := fs\<rparr>)
             else (Inr \<lparr>returncode = rc, stdout = out, stderr = err\<rparr>, st1\<lparr>files := fs\<rparr>))"

section \<open>The separation runner\<close>

text \<open>
  \<^verbatim>\<open>separate_music(input_file)\<close> of \<^verbatim>\<open>run_separation.py\<close>. The result is
  \<open>Inr (Some path)\<close> for a returned path, \<open>Inr None\<close> for \<^verbatim>\<open>None\<close> and
  \<open>Inl e\<close> for an exception that leaves the function. The \<^verbatim>\<open>try\<close> block has two
  handlers, for \<^verbatim>\<open>CalledProcessError\<close> and for \<^verbatim>\<open>FileNotFoundError\<close>; any other
  exception of \<^verbatim>\<open>subprocess.run\<close> passes through. The argument is the string form of
  the path the caller hands over.
\<close>

definition output_dir :: pure_path where
  "output_dir = Path ''separated_output''"

text \<open>The command of lines 41 to 45: \<^verbatim>\<open>demucs -o separated_output <input>\<close>.\<close>

definition demucs_command :: "pure_path \<Rightarrow> string list" where
  "demucs_command input_path =
     [''demucs'', ''-o'', path_str output_dir, path_str input_path]"

definition separate_music ::
  "runtime \<Rightarrow> string \<Rightarrow> process \<Rightarrow> (exn + pure_path option) \<times> process" where
  "separate_music rt input_file st =
     (let input_path = Path input_file in
      if \<not> path_exists (files st) input_path then
        (Inr None, print (''Error: File not found at '' @ quoted input_file) st)
      else if \<not> is_file (files st) input_path then
        (Inr None,
         print (''Error: Path '' @ quoted input_file @ '' is a directory, not a file.'') st)
      else
        (let file_stem = path_stem input_path;
             command = demucs_command input_path;
             st1 = print (''Starting separation for: '' @ path_name input_path @ ''...'') st
         in case subprocess_run rt command st1 of
              (Inr result, st2) \<Rightarrow>
                (let st3 = print ''Separation complete!'' st2;
                     model_name = infer_model_name (stdout result);
                     final_output_path = joinpath (joinpath output_dir model_name) file_stem
                 in if \<not> path_exists (files st3) final_output_path then
                      (Inr (Some output_dir),
                       print (''Warning: Could not find expected path '' @
                              quoted (path_str final_output_path) @
                              ''. Returning base path.'') st3)
                    else
                      (Inr (Some final_output_path),
                       print (''Find your stems in: '' @ resolve rt final_output_path) st3))
            | (Inl (CalledProcessError rc cmd out err), st2) \<Rightarrow>
                (Inr None,
                 print err (print ''--- STDERR ---'' (print out (print ''--- STDOUT ---''
                   (print ''Error during separation:'' st2)))))
            | (Inl (FileNotFoundError f), st2) \<Rightarrow>
                (Inr None,
                 print ''Please ensure demucs is installed and your virtual environment is active.''
                   (print (''Error: '' @ quoted ''demucs'' @ '' command not found.'') st2))
            | (Inl e, st2) \<Rightarrow> (Inl e, st2)))"

section \<open>The command-line entry point\<close>

text \<open>
  The names bound in the module \<^verbatim>\<open>run_separation\<close> when its main block runs: the three
  imported modules, the class \<^verbatim>\<open>Path\<close> and the function \<^verbatim>\<open>separate_music\<close>.
  Reading any other name raises \<^verbatim>\<open>NameError\<close>.
\<close>

datatype binding = Module | Class | Function | StrValue string

definition run_separation_globals :: "(string \<times> binding) list" where
  "run_separation_globals =
     [(''subprocess'', Module), (''sys'', Module), (''os'', Module),
      (''Path'', Class), (''separate_music'', Function)]"

definition load_name :: "(string \<times> binding) list \<Rightarrow> string \<Rightarrow> exn + binding" where
  "load_name globals name =
     (case map_of globals name of
        None \<Rightarrow> Inl (NameError name)
      | Some b \<Rightarrow> Inr b)"

text \<open>
  The main block, lines 109 to 126. With an argument it executes
  \<^verbatim>\<open>file_to_.process = sys.argv[1]\<close>, an attribute assignment on the object named
  \<^verbatim>\<open>file_to_\<close>, and then calls \<^verbatim>\<open>separate_music(file_to_process)\<close>. Both names are
  looked up among the module's globals. A \<^verbatim>\<open>Path\<close> is always true in
  \<^verbatim>\<open>if output_path\<close>; \<^verbatim>\<open>None\<close> is false.
\<close>

definition run_separation_main ::
  "runtime \<Rightarrow> string list \<Rightarrow> process \<Rightarrow> (exn + unit) \<times> process" where
  "run_separation_main rt argv st =
     (if length argv < 2 then
        (Inr (), print ''Usage: python run_separation.py <path_to_your_audio_file>'' st)
      else
        (case load_name run_separation_globals ''file_to_'' of
           Inl e \<Rightarrow> (Inl e, st)
         | Inr obj \<Rightarrow>
             (case load_name run_separation_globals ''file_to_process'' of
                Inl e \<Rightarrow> (Inl e, st)
              | Inr (StrValue file_to_process) \<Rightarrow>
                  (case separate_music rt file_to_process st of
                     (Inl e, st1) \<Rightarrow> (Inl e, st1)
                   | (Inr (Some output_path), st1) \<Rightarrow>
                       (Inr (),
                        print (''Script finished. Output at: '' @ path_str output_path) st1)
                   | (Inr None, st1) \<Rightarrow> (Inr (), print ''Script finished with errors.'' st1))
              | Inr other \<Rightarrow> (Inl (TypeError ''expected str, bytes or os.PathLike object''), st))))"

section \<open>The upload handler\<close>

text \<open>
  \<^verbatim>\<open>upload_path.open("wb")\<close>: refused for a directory and when the parent is missing
  or is no directory; otherwise the file exists afterwards and is empty.
\<close>

definition open_wb :: "filesystem \<Rightarrow> pure_path \<Rightarrow> exn + filesystem" where
  "open_wb fs p =
     (case fs (path_str p) of
        Some Directory \<Rightarrow> Inl (IsADirectoryError (path_str p))
      | _ \<Rightarrow>
          (case fs (path_str (path_parent p)) of
             None \<Rightarrow> Inl (FileNotFoundError (path_str p))
           | Some (RegularFile _) \<Rightarrow> Inl (NotADirectoryError (path_str p))
           | Some Directory \<Rightarrow> Inr (fs(path_str p \<mapsto> RegularFile []))))"

text \<open>
  Lines 53 to 63 of \<^verbatim>\<open>main.py\<close>: open the target for writing, copy the upload into
  it; any exception becomes an \<^verbatim>\<open>HTTPException\<close> with status 500.
\<close>

definition save_upload ::
  "runtime \<Rightarrow> pure_path \<Rightarrow> bytes \<Rightarrow> process \<Rightarrow> (exn + unit) \<times> process" where
  "save_upload rt upload_path content st =
     (case open_wb (files st) upload_path of
        Inl e \<Rightarrow>
          (Inl (HTTPException 500 (JStr (''Failed to save file: '' @ exc_str rt e))), st)
      | Inr fs1 \<Rightarrow>
          (Inr (), st\<lparr>files := fs1(path_str upload_path \<mapsto> RegularFile content)\<rparr>))"

text \<open>
  Lines 73 to 87 of \<^verbatim>\<open>main.py\<close>: the call of the runner inside \<^verbatim>\<open>try\<close>. The
  \<^verbatim>\<open>raise HTTPException\<close> for a \<^verbatim>\<open>None\<close> result stands inside the \<^verbatim>\<open>try\<close>
  block, so the handlers below it see it as they see an exception of the runner: first
  \<^verbatim>\<open>except subprocess.CalledProcessError\<close>, then \<^verbatim>\<open>except Exception\<close>.
\<close>

definition try_separation ::
  "runtime \<Rightarrow> pure_path \<Rightarrow> process \<Rightarrow> (exn + pure_path) \<times> process" where
  "try_separation rt upload_path st =
     (let (r, st1) = separate_music rt (path_str upload_path) st;
          body = (case r of
                    Inl e \<Rightarrow> Inl e
                  | Inr None \<Rightarrow>
                      Inl (HTTPException 500 (JStr ''Separation failed. Check server logs.''))
                  | Inr (Some output_folder_path) \<Rightarrow> Inr output_folder_path)
      in case body of
           Inl (CalledProcessError rc cmd out err) \<Rightarrow>
             (Inl (HTTPException 500
                (JObj [(''error'', JStr ''Demucs process failed''),
                       (''stdout'', JStr out), (''stderr'', JStr err)])), st1)
         | Inl e \<Rightarrow>
             (Inl (HTTPException 500
                (JStr (''An unexpected error occurred: '' @ exc_str rt e))), st1)
         | Inr output_folder_path \<Rightarrow> (Inr output_folder_path, st1))"

text \<open>
  Lines 65 to 98 of \<^verbatim>\<open>main.py\<close>: what the handler does once the upload is saved.
\<close>

definition separate_and_respond ::
  "runtime \<Rightarrow> pure_path \<Rightarrow> process \<Rightarrow> (exn + json) \<times> process" where
  "separate_and_respond rt upload_path st =
     (let st1 = print (''File saved to: '' @ path_str upload_path) st
      in case try_separation rt upload_path st1 of
           (Inl e, st2) \<Rightarrow> (Inl e, st2)
         | (Inr output_folder_path, st2) \<Rightarrow>
             (Inr (JObj [(''message'', JStr ''Separation complete!''),
                         (''output_path'', JStr (path_str output_folder_path))]),
              print (''Separation complete. Stems in: '' @ path_str output_folder_path) st2))"

text \<open>\<^verbatim>\<open>separate_audio_endpoint(file)\<close>: the file name and the bytes of the upload.\<close>

definition separate_audio_endpoint ::
  "runtime \<Rightarrow> string \<Rightarrow> bytes \<Rightarrow> process \<Rightarrow> (exn + json) \<times> process" where
  "separate_audio_endpoint rt filename content st =
     (let upload_path = joinpath (Path ''uploads'') filename
      in case save_upload rt upload_path content st of
           (Inl e, st1) \<Rightarrow> (Inl e, st1)
         | (Inr u, st1) \<Rightarrow> separate_and_respond rt upload_path st1)"

text \<open>
  Modelled from the spec: the HTTP framework is not part of the sources. A returned
  dictionary is sent with status 200 as the JSON body; an \<^verbatim>\<open>HTTPException\<close> is sent
  with its status code and a JSON body holding its detail (a plain message string, or a
  structured object); any other exception is a plain 500.
\<close>

record http_response =
  status_code :: nat
  body :: json

definition http_response_of :: "exn + json \<Rightarrow> http_response" where
  "http_response_of r =
     (case r of
        Inr content \<Rightarrow> \<lparr>status_code = 200, body = content\<rparr>
      | Inl (HTTPException code detail) \<Rightarrow>
          \<lparr>status_code = code, body = JObj [(''detail'', detail)]\<rparr>
      | Inl e \<Rightarrow> \<lparr>status_code = 500, body = JStr ''Internal Server Error''\<rparr>)"


section \<open>Auxiliary notions for the statements\<close>

text \<open>
  The paths that parsing and joining produce: one of the three roots, and components
  that are not empty, not a single dot and hold no slash.
\<close>

definition wf_path :: "pure_path \<Rightarrow> bool" where
  "wf_path p =
     ((root p = [] \<or> root p = ''/'' \<or> root p = ''//'') \<and>
      list_all (\<lambda>c. c \<noteq> [] \<and> c \<noteq> ''.'' \<and> CHR ''/'' \<notin> set c) (tail p))"

text \<open>
  The candidate result path of line 84, as a function of the captured output and the input.
\<close>

abbreviation final_output_path :: "string \<Rightarrow> string \<Rightarrow> pure_path" where
  "final_output_path out input_file \<equiv>
     joinpath (joinpath output_dir (infer_model_name out)) (path_stem (Path input_file))"

text \<open>
  The specification's wording of the model-name rule, for comparison with
  \<open>scan_lines\<close>: the last whitespace-delimited token of the marker line, with
  surrounding quote and period characters stripped. Whitespace is what Python's
  \<^verbatim>\<open>str.split()\<close> without arguments splits on (code points below 256).
\<close>

definition is_whitespace :: "char \<Rightarrow> bool" where
  "is_whitespace c =
     (c = CHR '' '' \<or> c = CHR 0x09 \<or> c = CHR 0x0A \<or> c = CHR 0x0B \<or> c = CHR 0x0C \<or>
      c = CHR 0x0D \<or> c = CHR 0x1C \<or> c = CHR 0x1D \<or> c = CHR 0x1E \<or> c = CHR 0x1F \<or>
      c = CHR 0x85 \<or> c = CHR 0xA0)"

fun tokens_from :: "string \<Rightarrow> string \<Rightarrow> string list" where
  "tokens_from acc [] = (if acc = [] then [] else [rev acc])"
| "tokens_from acc (c # cs) =
     (if is_whitespace c then
        (if acc = [] then tokens_from [] cs else rev acc # tokens_from [] cs)
      else tokens_from (c # acc) cs)"

definition spec_model_name :: "string \<Rightarrow> string" where
  "spec_model_name line =
     (case rev (tokens_from [] line) of
        [] \<Rightarrow> []
      | token # _ \<Rightarrow> strip [CHR 0x27, CHR ''.''] token)"

section \<open>Example worlds\<close>

text \<open>
  A working directory with the two directories the server creates at start and one audio
  file, and four stubs in place of the external tool: one that exits with status 1, one
  that is not installed, one that names its model and writes its output directory, and one
  that exits with status 0 and writes nothing.
\<close>

definition example_files :: filesystem where
  "example_files =
     [''uploads'' \<mapsto> Directory, ''separated_output'' \<mapsto> Directory,
      ''song.mp3'' \<mapsto> RegularFile [82, 73, 70, 70]]"

definition example_process :: process where
  "example_process = \<lparr>files = example_files, printed = [], run_calls = []\<rparr>"

definition example_exc_str :: "exn \<Rightarrow> string" where
  "example_exc_str e =
     (case e of
        HTTPException code (JStr detail) \<Rightarrow>
          (if code = 500 then ''500: '' @ detail else detail)
      | _ \<Rightarrow> ''error'')"

definition example_runtime :: "(string list \<Rightarrow> filesystem \<Rightarrow> outcome) \<Rightarrow> runtime" where
  "example_runtime t =
     \<lparr>tool = t, resolve = (\<lambda>p. ''/srv/app/'' @ path_str p), exc_str = example_exc_str\<rparr>"


definition stub_missing :: "string list \<Rightarrow> filesystem \<Rightarrow> outcome" where
  "stub_missing command fs = NotFound"

definition stub_mymodel :: "string list \<Rightarrow> filesystem \<Rightarrow> outcome" where
  "stub_mymodel command fs =
     Exited 0 ''Selected model is 'mymodel'.'' ''''
       (fs(''separated_output/mymodel/song'' \<mapsto> Directory))"


section \<open>Facts about splitting and paths\<close>

lemma startswith_iff: "startswith s p \<longleftrightarrow> (\<exists>ys. s = p @ ys)"
  by (induction s p rule: startswith.induct) auto

text \<open>The substring test holds exactly when the needle occurs somewhere in the string.\<close>

lemma str_in_iff: "str_in needle s \<longleftrightarrow> (\<exists>xs ys. s = xs @ needle @ ys)"
proof (induction s)
  case Nil
  then show ?case by auto
next
  case (Cons c cs)
  show ?case
  proof
    assume "str_in needle (c # cs)"
    then consider "startswith (c # cs) needle" | "str_in needle cs" by auto
    then show "\<exists>xs ys. c # cs = xs @ needle @ ys"
    proof cases
      case 1
      then obtain ys where "c # cs = needle @ ys" by (auto simp: startswith_iff)
      then have "c # cs = [] @ needle @ ys" by simp
      then show ?thesis by blast
    next
      case 2
      with Cons obtain xs ys where "cs = xs @ needle @ ys" by auto
      then have "c # cs = (c # xs) @ needle @ ys" by simp
      then show ?thesis by blast
    qed
  next
    assume "\<exists>xs ys. c # cs = xs @ needle @ ys"
    then obtain xs ys where e: "c # cs = xs @ needle @ ys" by auto
    show "str_in needle (c # cs)"
    proof (cases xs)
      case Nil
      with e have "startswith (c # cs) needle" by (auto simp: startswith_iff)
      then show ?thesis by simp
    next
      case (Cons x xs')
      with e have "cs = xs' @ needle @ ys" by simp
      with Cons.IH have "str_in needle cs" by blast
      then show ?thesis by simp
    qed
  qed
qed

text \<open>No line that \<open>splitlines\<close> returns holds a line boundary.\<close>

lemma splitlines_from_no_break:
  "l \<in> set (splitlines_from acc s) \<Longrightarrow> \<forall>c \<in> set acc. \<not> is_linebreak c \<Longrightarrow>
   c \<in> set l \<Longrightarrow> \<not> is_linebreak c"
proof (induction s arbitrary: acc l rule: length_induct)
  case (1 s)
  show ?case
  proof (cases s)
    case Nil
    with 1(2,3,4) show ?thesis by (auto split: if_splits)
  next
    case (Cons x xs)
    have cr: "is_linebreak (CHR 0x0D)" by (simp add: is_linebreak_def)
    show ?thesis
    proof (cases "x = CHR 0x0D")
      case True
      show ?thesis
      proof (cases xs)
        case Nil
        with 1(2,3,4) Cons True show ?thesis by auto
      next
        case (Cons d ds)
        show ?thesis
        proof (cases "d = CHR 0x0A")
          case True
          from 1(2) \<open>s = x # xs\<close> \<open>x = CHR 0x0D\<close> Cons True
          have "l = rev acc \<or> l \<in> set (splitlines_from [] ds)" by simp
          then show ?thesis
          proof
            assume "l = rev acc" with 1(3,4) show ?thesis by auto
          next
            assume a: "l \<in> set (splitlines_from [] ds)"
            have "length ds < length s" using \<open>s = x # xs\<close> Cons by simp
            with 1(1) a 1(4) show ?thesis by fastforce
          qed
        next
          case False
          from 1(2) \<open>s = x # xs\<close> \<open>x = CHR 0x0D\<close> Cons False
          have "l = rev acc \<or> l \<in> set (splitlines_from [] xs)" by simp
          then show ?thesis
          proof
            assume "l = rev acc" with 1(3,4) show ?thesis by auto
          next
            assume a: "l \<in> set (splitlines_from [] xs)"
            have "length xs < length s" using \<open>s = x # xs\<close> by simp
            with 1(1) a 1(4) show ?thesis by fastforce
          qed
        qed
      qed
    next
      case False
      show ?thesis
      proof (cases "is_linebreak x")
        case True
        from 1(2) Cons False True
        have "l = rev acc \<or> l \<in> set (splitlines_from [] xs)" by simp
        then show ?thesis
        proof
          assume "l = rev acc" with 1(3,4) show ?thesis by auto
        next
          assume a: "l \<in> set (splitlines_from [] xs)"
          have "length xs < length s" using Cons by simp
          with 1(1) a 1(4) show ?thesis by fastforce
        qed
      next
        case nb: False
        from 1(2) Cons False nb
        have a: "l \<in> set (splitlines_from (x # acc) xs)" by simp
        have b: "\<forall>c \<in> set (x # acc). \<not> is_linebreak c" using nb 1(3) by simp
        have "length xs < length s" using Cons by simp
        with 1(1) a b 1(4) show ?thesis by blast
      qed
    qed
  qed
qed

lemma splitlines_no_break: "l \<in> set (splitlines s) \<Longrightarrow> c \<in> set l \<Longrightarrow> \<not> is_linebreak c"
  using splitlines_from_no_break[of l "[]" s c] by (simp add: splitlines_def)

lemma split_on_not_Nil: "split_on sep s \<noteq> []"
  by (induction s) (auto split: list.splits)

lemma split_on_no_sep: "sep \<notin> set s \<Longrightarrow> split_on sep s = [s]"
  by (induction s) auto

lemma split_on_parts: "p \<in> set (split_on sep s) \<Longrightarrow> sep \<notin> set p"
  by (induction s arbitrary: p) (auto split: if_splits list.splits)

lemma split_on_append: "sep \<notin> set p \<Longrightarrow> split_on sep (p @ sep # s) = p # split_on sep s"
  by (induction p) auto

lemma split_on_join:
  "ps \<noteq> [] \<Longrightarrow> \<forall>p \<in> set ps. sep \<notin> set p \<Longrightarrow> split_on sep (str_join [sep] ps) = ps"
  by (induction "[sep]" ps rule: str_join.induct) (auto simp: split_on_no_sep split_on_append)

lemma scan_lines_no_marker:
  "\<forall>l \<in> set ls. \<not> has_marker l \<Longrightarrow> scan_lines d ls = d"
  by (induction ls) auto

lemma scan_lines_first_marker:
  "\<forall>l \<in> set pre. \<not> has_marker l \<Longrightarrow> has_marker line \<Longrightarrow>
   scan_lines d (pre @ line # post) =
     strip [CHR 0x27, CHR ''.''] (last (split_on CHR '' '' line))"
  by (induction pre) (auto simp: split_on_not_Nil Let_def)

lemma wf_Path: "wf_path (Path s)"
  by (auto simp: wf_path_def list_all_iff Path_def parse_root_def dest: split_on_parts)


lemma str_join_Cons:
  "c \<noteq> [] \<Longrightarrow> \<exists>rest. str_join sep (c # cs) = hd c # rest"
  by (cases cs; cases c) auto

lemma filter_wf_tail:
  "\<forall>c \<in> set ts. c \<noteq> [] \<and> c \<noteq> ''.'' \<and> CHR ''/'' \<notin> set c \<Longrightarrow>
   filter (\<lambda>part. part \<noteq> [] \<and> part \<noteq> ''.'') ts = ts"
  by (induction ts) auto

text \<open>Printing a well-formed path and parsing it again gives the path back.\<close>

lemma Path_path_str:
  assumes "wf_path p"
  shows "Path (path_str p) = p"
proof (cases "tail p")
  case Nil
  from assms have "root p = [] \<or> root p = ''/'' \<or> root p = ''//''"
    by (simp add: wf_path_def)
  then have "Path (path_str p) = \<lparr>root = root p, tail = []\<rparr>"
    by (auto simp: Nil path_str_def Path_def parse_root_def)
  then show ?thesis using Nil by simp
next
  case (Cons c cs)
  from assms Cons
  have comps: "\<forall>c \<in> set (tail p). c \<noteq> [] \<and> c \<noteq> ''.'' \<and> CHR ''/'' \<notin> set c"
    and c: "c \<noteq> []" "CHR ''/'' \<notin> set c"
    by (auto simp: wf_path_def list_all_iff)
  from c obtain rest where j: "str_join ''/'' (tail p) = hd c # rest"
    and h: "hd c \<noteq> CHR ''/''"
    using str_join_Cons[of c "''/''" cs] Cons by (cases c) auto
  have sp: "split_on CHR ''/'' (str_join ''/'' (tail p)) = tail p"
    using split_on_join[of "tail p" "CHR ''/''"] comps Cons by simp
  from assms have "root p = [] \<or> root p = ''/'' \<or> root p = ''//''"
    by (simp add: wf_path_def)
  then have "Path (path_str p) = \<lparr>root = root p, tail = tail p\<rparr>"
  proof (elim disjE)
    assume r: "root p = []"
    show ?thesis
      using sp j h filter_wf_tail[OF comps] Cons
      by (simp add: r path_str_def Path_def parse_root_def)
  next
    assume r: "root p = ''/''"
    show ?thesis
      using sp j h filter_wf_tail[OF comps] Cons
      by (simp add: r path_str_def Path_def parse_root_def)
  next
    assume r: "root p = ''//''"
    show ?thesis
      using sp j h filter_wf_tail[OF comps] Cons
      by (simp add: r path_str_def Path_def parse_root_def)
  qed
  then show ?thesis by simp
qed

lemma Path_idem: "Path (path_str (Path s)) = Path s"
  by (rule Path_path_str[OF wf_Path])

lemma path_name_no_slash: "CHR ''/'' \<notin> set (path_name (Path s))"
proof (cases "tail (Path s) = []")
  case True
  then show ?thesis by (simp add: path_name_def)
next
  case False
  then have "last (tail (Path s)) \<in> set (tail (Path s))" by simp
  then have "last (tail (Path s)) \<in> set (split_on CHR ''/'' s)"
    by (simp add: Path_def)
  then show ?thesis using False split_on_parts by (simp add: path_name_def)
qed

lemma path_stem_no_slash: "CHR ''/'' \<notin> set (path_stem (Path s))"
  using path_name_no_slash[of s]
  by (auto simp: path_stem_def Let_def dest: in_set_takeD)

lemma joinpath_component:
  assumes "c \<noteq> []" "c \<noteq> ''.''" "CHR ''/'' \<notin> set c"
  shows "joinpath p c = \<lparr>root = root p, tail = tail p @ [c]\<rparr>"
proof -
  from assms have "\<not> startswith c ''/''" by (cases c) auto
  moreover from assms have "tail (Path c) = [c]"
    by (simp add: Path_def split_on_no_sep)
  ultimately show ?thesis by (simp add: joinpath_def)
qed


lemma htdemucs_dir:
  "joinpath output_dir ''htdemucs'' = \<lparr>root = [], tail = [''separated_output'', ''htdemucs'']\<rparr>"
  by (simp add: output_dir_def joinpath_def Path_def parse_root_def)

lemma output_dir_components: "output_dir = \<lparr>root = [], tail = [''separated_output'']\<rparr>"
  by (simp add: output_dir_def Path_def parse_root_def)

lemma final_output_path_str:
  assumes "m \<noteq> []" "m \<noteq> ''.''" "CHR ''/'' \<notin> set m"
      and "s \<noteq> []" "s \<noteq> ''.''" "CHR ''/'' \<notin> set s"
  shows "path_str (joinpath (joinpath output_dir m) s) = ''separated_output/'' @ m @ ''/'' @ s"
  using assms
  by (simp add: joinpath_component output_dir_components path_str_def)

section \<open>Facts about the runner\<close>


lemma is_file_exists: "is_file fs p \<Longrightarrow> path_exists fs p"
  by (auto simp: path_exists_def is_file_def split: option.splits)

lemma files_print [simp]: "files (print line st) = files st"
  by (simp add: print_def)

lemma printed_print [simp]: "printed (print line st) = printed st @ [line]"
  by (simp add: print_def)

lemma run_calls_print [simp]: "run_calls (print line st) = run_calls st"
  by (simp add: print_def)

lemma separate_music_invalid:
  assumes "\<not> is_file (files st) (Path input_file)"
  shows "\<exists>msg. separate_music rt input_file st = (Inr None, print msg st)"
  using assms by (auto simp: separate_music_def Let_def)


lemma separate_music_not_found:
  assumes "is_file (files st) (Path input_file)"
      and "tool rt (demucs_command (Path input_file)) (files st) = NotFound"
  shows "separate_music rt input_file st =
           (Inr None,
            st\<lparr>printed := printed st @
                 [''Starting separation for: '' @ path_name (Path input_file) @ ''...'',
                  ''Error: '' @ quoted ''demucs'' @ '' command not found.'',
                  ''Please ensure demucs is installed and your virtual environment is active.''],
               run_calls := run_calls st @ [demucs_command (Path input_file)]\<rparr>)"
  using assms is_file_exists[OF assms(1)]
  by (simp add: separate_music_def subprocess_run_def Let_def print_def)

lemma separate_music_spawn_error:
  assumes "is_file (files st) (Path input_file)"
      and "tool rt (demucs_command (Path input_file)) (files st) = SpawnError msg"
  shows "fst (separate_music rt input_file st) = Inl (OSError msg)"
  using assms is_file_exists[OF assms(1)]
  by (simp add: separate_music_def subprocess_run_def Let_def print_def)

lemma separate_music_exit_zero:
  assumes "is_file (files st) (Path input_file)"
      and "tool rt (demucs_command (Path input_file)) (files st) = Exited 0 out err fs'"
  shows "fst (separate_music rt input_file st) =
           (if path_exists fs' (final_output_path out input_file)
            then Inr (Some (final_output_path out input_file))
            else Inr (Some output_dir))"
  using assms is_file_exists[OF assms(1)]
  by (simp add: separate_music_def subprocess_run_def Let_def print_def)


section \<open>Facts about the upload handler\<close>

text \<open>
  The result of the \<^verbatim>\<open>try\<close> block of the handler, by what the runner did. A
  \<^verbatim>\<open>None\<close> result raises inside the block and is caught by the last handler.
\<close>

lemma try_separation_result:
  "fst (try_separation rt p st) =
     (case fst (separate_music rt (path_str p) st) of
        Inr (Some q) \<Rightarrow> Inr q
      | Inr None \<Rightarrow>
          Inl (HTTPException 500 (JStr (''An unexpected error occurred: '' @
            exc_str rt (HTTPException 500 (JStr ''Separation failed. Check server logs.'')))))
      | Inl (CalledProcessError rc cmd out err) \<Rightarrow>
          Inl (HTTPException 500
                (JObj [(''error'', JStr ''Demucs process failed''),
                       (''stdout'', JStr out), (''stderr'', JStr err)]))
      | Inl e \<Rightarrow>
          Inl (HTTPException 500 (JStr (''An unexpected error occurred: '' @ exc_str rt e))))"
  by (simp add: try_separation_def Let_def
      split: prod.splits sum.splits option.splits exn.splits)

lemma separate_and_respond_result:
  "fst (separate_and_respond rt p st) =
     (case fst (try_separation rt p (print (''File saved to: '' @ path_str p) st)) of
        Inl e \<Rightarrow> Inl e
      | Inr q \<Rightarrow> Inr (JObj [(''message'', JStr ''Separation complete!''),
                         (''output_path'', JStr (path_str q))]))"
  by (simp add: separate_and_respond_def Let_def split: prod.splits sum.splits)




lemma endpoint_after_save:
  assumes "save_upload rt (joinpath (Path ''uploads'') filename) content st = (Inr (), st1)"
  shows "separate_audio_endpoint rt filename content st =
           separate_and_respond rt (joinpath (Path ''uploads'') filename) st1"
  using assms by (simp add: separate_audio_endpoint_def Let_def)



section \<open>Facts about the example worlds\<close>

lemma example_song_is_file: "is_file (files example_process) (Path ''song.mp3'')"
  by (simp add: is_file_def example_process_def example_files_def Path_def parse_root_def
      path_str_def)

lemma example_command:
  "demucs_command (Path ''song.mp3'') = [''demucs'', ''-o'', ''separated_output'', ''song.mp3'']"
  by (simp add: demucs_command_def output_dir_def Path_def parse_root_def path_str_def)

lemma example_saved_is_file:
  "is_file (example_files(''uploads/song.mp3'' \<mapsto> RegularFile content)) (Path ''uploads/song.mp3'')"
  by (simp add: is_file_def Path_def parse_root_def path_str_def)

lemma example_mymodel_upload_path:
  "final_output_path ''Selected model is 'mymodel'.'' ''uploads/song.mp3'' =
     Path ''separated_output/mymodel/song''"
proof -
  have m: "infer_model_name ''Selected model is 'mymodel'.'' = ''mymodel''"
    by (simp add: infer_model_name_def splitlines_def is_linebreak_def has_marker_def strip_def)
  show ?thesis
    by (simp add: m output_dir_def joinpath_def Path_def parse_root_def path_stem_def
        path_name_def rfind_def)
qed

lemma example_upload_path:
  "joinpath (Path ''uploads'') ''song.mp3'' = Path ''uploads/song.mp3''"
  by (simp add: joinpath_def Path_def parse_root_def)

lemma example_upload_saved:
  "save_upload rt (joinpath (Path ''uploads'') ''song.mp3'') content example_process =
     (Inr (), example_process\<lparr>files := example_files(''uploads/song.mp3'' \<mapsto> RegularFile content)\<rparr>)"
  by (simp add: joinpath_def Path_def parse_root_def path_str_def path_parent_def
      save_upload_def open_wb_def example_process_def example_files_def)



section \<open>The claims\<close>

text \<open>
  The statements about HTTP responses are made for \<open>separate_and_respond\<close>, the part
  of the handler that follows the saving of the upload, entered with the upload path
  \<open>Path input_file\<close>. They carry over to the whole endpoint: once the upload is saved
  the endpoint is \<open>separate_and_respond\<close> at the upload path (\<open>endpoint_after_save\<close>),
  the saved upload is a regular file for the runner (\<open>saved_upload_is_file\<close>), and
  every upload path \<open>p\<close> is \<open>Path (path_str p)\<close> (\<open>Path_path_str\<close>). The
  examples after the theorems run the whole endpoint.
\<close>





text \<open>
  Claim C7. On a fully successful run (the tool exits with status 0 and the candidate path
  exists afterwards) \<open>separate_music\<close> returns the path
  \<^verbatim>\<open>output_dir / model_name / file_stem\<close>, and the handler answers 200 with the JSON
  body holding the message \<^verbatim>\<open>Separation complete!\<close> and the string form of that
  path. The string form is \<^verbatim>\<open>separated_output/<model>/<stem>\<close> whenever the model
  name is a plain component (not empty, not a single dot, without a slash) and the stem is
  neither empty nor a single dot.
\<close>

theorem successful_run_returns_output_path:
  assumes "is_file (files st) (Path input_file)"
      and "tool rt (demucs_command (Path input_file)) (files st) = Exited 0 out err fs'"
      and "path_exists fs' (final_output_path out input_file)"
  shows "fst (separate_music rt input_file st) =
           Inr (Some (joinpath (joinpath output_dir (infer_model_name out))
                        (path_stem (Path input_file))))
       \<and> http_response_of (fst (separate_and_respond rt (Path input_file) st)) =
           \<lparr>status_code = 200,
            body = JObj [(''message'', JStr ''Separation complete!''),
                         (''output_path'', JStr (path_str (final_output_path out input_file)))]\<rparr>
       \<and> (infer_model_name out \<noteq> [] \<and> infer_model_name out \<noteq> ''.'' \<and>
          CHR ''/'' \<notin> set (infer_model_name out) \<and>
          path_stem (Path input_file) \<noteq> [] \<and> path_stem (Path input_file) \<noteq> ''.'' \<longrightarrow>
            path_str (final_output_path out input_file) =
              ''separated_output/'' @ infer_model_name out @ ''/'' @ path_stem (Path input_file))"
proof -
  have r: "fst (separate_music rt input_file st) = Inr (Some (final_output_path out input_file))"
    using separate_music_exit_zero[OF assms(1,2)] assms(3) by simp
  let ?st1 = "print (''File saved to: '' @ path_str (Path input_file)) st"
  have "fst (separate_music rt (path_str (Path input_file)) ?st1) =
          Inr (Some (final_output_path out input_file))"
    using separate_music_exit_zero[of ?st1 "path_str (Path input_file)" rt out err fs'] assms
    by (simp add: Path_idem)
  then have h: "http_response_of (fst (separate_and_respond rt (Path input_file) st)) =
           \<lparr>status_code = 200,
            body = JObj [(''message'', JStr ''Separation complete!''),
                         (''output_path'', JStr (path_str (final_output_path out input_file)))]\<rparr>"
    by (simp add: separate_and_respond_result try_separation_result http_response_of_def)
  have s: "path_str (final_output_path out input_file) =
              ''separated_output/'' @ infer_model_name out @ ''/'' @ path_stem (Path input_file)"
    if "infer_model_name out \<noteq> []" "infer_model_name out \<noteq> ''.''"
       "CHR ''/'' \<notin> set (infer_model_name out)"
       "path_stem (Path input_file) \<noteq> []" "path_stem (Path input_file) \<noteq> ''.''"
    using final_output_path_str[OF that(1,2,3,4,5) path_stem_no_slash] .
  from r h s show ?thesis by blast
qed

text \<open>
  The upload of \<^verbatim>\<open>song.mp3\<close> with the stub that names \<^verbatim>\<open>mymodel\<close> and
  creates its directory: the runner returns \<^verbatim>\<open>separated_output/mymodel/song\<close> and
  the endpoint answers 200 with it.
\<close>

theorem successful_run_returns_output_path_witness:
  "is_file (example_files(''uploads/song.mp3'' \<mapsto> RegularFile [82, 73, 70, 70]))
     (Path ''uploads/song.mp3'')
   \<and> fst (separate_music (example_runtime stub_mymodel) ''uploads/song.mp3''
          (example_process\<lparr>files :=
             example_files(''uploads/song.mp3'' \<mapsto> RegularFile [82, 73, 70, 70])\<rparr>)) =
       Inr (Some (Path ''separated_output/mymodel/song''))
   \<and> http_response_of (fst (separate_audio_endpoint (example_runtime stub_mymodel)
         ''song.mp3'' [82, 73, 70, 70] example_process)) =
       \<lparr>status_code = 200,
        body = JObj [(''message'', JStr ''Separation complete!''),
                     (''output_path'', JStr ''separated_output/mymodel/song'')]\<rparr>"
proof -
  let ?rt = "example_runtime stub_mymodel"
  let ?fs1 = "example_files(''uploads/song.mp3'' \<mapsto> RegularFile [82, 73, 70, 70])"
  let ?st1 = "example_process\<lparr>files := ?fs1\<rparr>"
  let ?fs2 = "?fs1(''separated_output/mymodel/song'' \<mapsto> Directory)"
  have f: "is_file (files ?st1) (Path ''uploads/song.mp3'')"
    by (simp add: example_saved_is_file)
  have t: "tool ?rt (demucs_command (Path ''uploads/song.mp3'')) (files ?st1) =
             Exited 0 ''Selected model is 'mymodel'.'' '''' ?fs2"
    by (simp add: example_runtime_def stub_mymodel_def)
  have s: "path_str (Path ''separated_output/mymodel/song'') = ''separated_output/mymodel/song''"
    by (simp add: Path_def parse_root_def path_str_def)
  have e: "path_exists ?fs2 (final_output_path ''Selected model is 'mymodel'.'' ''uploads/song.mp3'')"
    by (simp add: example_mymodel_upload_path path_exists_def s)
  note w = successful_run_returns_output_path[OF f t e]
  from w[THEN conjunct1]
  have a: "fst (separate_music ?rt ''uploads/song.mp3'' ?st1) =
       Inr (Some (Path ''separated_output/mymodel/song''))"
    by (simp add: example_mymodel_upload_path)
  from w[THEN conjunct2]
  have b: "http_response_of (fst (separate_audio_endpoint ?rt ''song.mp3'' [82, 73, 70, 70]
             example_process)) =
       \<lparr>status_code = 200,
        body = JObj [(''message'', JStr ''Separation complete!''),
                     (''output_path'', JStr ''separated_output/mymodel/song'')]\<rparr>"
    by (simp add: endpoint_after_save[OF example_upload_saved] example_upload_path
        example_mymodel_upload_path s)
  from f a b show ?thesis by simp
qed

text \<open>
  Claim C9. When the executable of the tool is not found, \<open>separate_music\<close> returns
  \<^verbatim>\<open>None\<close> and does not raise; it prints two lines of its own for this case after
  the start message. The handler's response is then the one it gives for an input that is
  no regular file: the two cannot be told apart over HTTP.
\<close>

theorem tool_missing_gives_no_result:
  assumes "is_file (files st) (Path input_file)"
      and "tool rt (demucs_command (Path input_file)) (files st) = NotFound"
  shows "separate_music rt input_file st =
           (Inr None,
            st\<lparr>printed := printed st @
                 [''Starting separation for: '' @ path_name (Path input_file) @ ''...'',
                  ''Error: 'demucs' command not found.'',
                  ''Please ensure demucs is installed and your virtual environment is active.''],
               run_calls := run_calls st @ [demucs_command (Path input_file)]\<rparr>)
       \<and> (\<forall>st' p'. \<not> is_file (files st') (Path (path_str p')) \<longrightarrow>
              http_response_of (fst (separate_and_respond rt p' st')) =
              http_response_of (fst (separate_and_respond rt (Path input_file) st)))"
proof -
  have r: "separate_music rt input_file st =
           (Inr None,
            st\<lparr>printed := printed st @
                 [''Starting separation for: '' @ path_name (Path input_file) @ ''...'',
                  ''Error: 'demucs' command not found.'',
                  ''Please ensure demucs is installed and your virtual environment is active.''],
               run_calls := run_calls st @ [demucs_command (Path input_file)]\<rparr>)"
    using separate_music_not_found[OF assms] by (simp add: quoted_def)
  let ?st1 = "print (''File saved to: '' @ path_str (Path input_file)) st"
  have "fst (separate_music rt (path_str (Path input_file)) ?st1) = Inr None"
    using separate_music_not_found[of ?st1 "path_str (Path input_file)" rt] assms
    by (simp add: Path_idem)
  then have here: "fst (separate_and_respond rt (Path input_file) st) =
      Inl (HTTPException 500 (JStr (''An unexpected error occurred: '' @
            exc_str rt (HTTPException 500 (JStr ''Separation failed. Check server logs.'')))))"
    by (simp add: separate_and_respond_result try_separation_result)
  have there: "fst (separate_and_respond rt p' st') =
      Inl (HTTPException 500 (JStr (''An unexpected error occurred: '' @
            exc_str rt (HTTPException 500 (JStr ''Separation failed. Check server logs.'')))))"
    if "\<not> is_file (files st') (Path (path_str p'))" for st' p'
  proof -
    let ?st2 = "print (''File saved to: '' @ path_str p') st'"
    from that have "\<not> is_file (files ?st2) (Path (path_str p'))" by simp
    from separate_music_invalid[OF this, of rt]
    have "fst (separate_music rt (path_str p') ?st2) = Inr None" by auto
    then show ?thesis
      by (simp add: separate_and_respond_result try_separation_result)
  qed
  from r here there show ?thesis by simp
qed

text \<open>
  With the tool not installed, \<^verbatim>\<open>song.mp3\<close> gives \<^verbatim>\<open>None\<close> and the three
  printed lines; the response equals the one for the missing \<^verbatim>\<open>nosuch.mp3\<close>.
\<close>

theorem tool_missing_gives_no_result_witness:
  "is_file (files example_process) (Path ''song.mp3'')
   \<and> \<not> is_file (files example_process) (Path (path_str (Path ''nosuch.mp3'')))
   \<and> separate_music (example_runtime stub_missing) ''song.mp3'' example_process =
       (Inr None,
        example_process\<lparr>printed :=
            [''Starting separation for: song.mp3...'',
             ''Error: 'demucs' command not found.'',
             ''Please ensure demucs is installed and your virtual environment is active.''],
          run_calls := [[''demucs'', ''-o'', ''separated_output'', ''song.mp3'']]\<rparr>)
   \<and> http_response_of (fst (separate_and_respond (example_runtime stub_missing)
         (Path ''nosuch.mp3'') example_process)) =
     http_response_of (fst (separate_and_respond (example_runtime stub_missing)
         (Path ''song.mp3'') example_process))"
proof -
  have t: "tool (example_runtime stub_missing) (demucs_command (Path ''song.mp3''))
             (files example_process) = NotFound"
    by (simp add: example_runtime_def stub_missing_def)
  have n: "\<not> is_file (files example_process) (Path (path_str (Path ''nosuch.mp3'')))"
    by (simp add: is_file_def example_process_def example_files_def Path_def
        parse_root_def path_str_def)
  have nm: "path_name (Path ''song.mp3'') = ''song.mp3''"
    by (simp add: path_name_def Path_def)
  have p: "printed example_process = []" "run_calls example_process = []"
    by (simp_all add: example_process_def)
  from tool_missing_gives_no_result[OF example_song_is_file t]
  show ?thesis using example_song_is_file n by (simp add: example_command nm p)
qed

text \<open>
  Claim C10. If no line of the captured standard output contains \<^verbatim>\<open>Selected model\<close>
  or \<^verbatim>\<open>default model\<close>, the inferred model name is \<^verbatim>\<open>htdemucs\<close>, so the
  candidate path is \<^verbatim>\<open>output_dir / "htdemucs" / file_stem\<close>; its string form is
  \<^verbatim>\<open>separated_output/htdemucs/<stem>\<close> whenever the stem is neither empty nor a
  single dot.
\<close>

theorem no_marker_gives_htdemucs:
  assumes "\<forall>line \<in> set (splitlines out).
             \<not> str_in ''Selected model'' line \<and> \<not> str_in ''default model'' line"
  shows "infer_model_name out = ''htdemucs''
       \<and> final_output_path out input_file =
           joinpath (joinpath output_dir ''htdemucs'') (path_stem (Path input_file))
       \<and> (path_stem (Path input_file) \<noteq> [] \<and> path_stem (Path input_file) \<noteq> ''.'' \<longrightarrow>
            path_str (final_output_path out input_file) =
              ''separated_output/htdemucs/'' @ path_stem (Path input_file))"
proof -
  from assms have "\<forall>line \<in> set (splitlines out). \<not> has_marker line"
    by (simp add: has_marker_def)
  then have m: "infer_model_name out = ''htdemucs''"
    by (simp add: infer_model_name_def scan_lines_no_marker)
  have "path_str (joinpath (joinpath output_dir ''htdemucs'') (path_stem (Path input_file))) =
          ''separated_output/htdemucs/'' @ path_stem (Path input_file)"
    if "path_stem (Path input_file) \<noteq> []" "path_stem (Path input_file) \<noteq> ''.''"
    using joinpath_component[OF that path_stem_no_slash] that
    by (simp add: htdemucs_dir path_str_def)
  with m show ?thesis by simp
qed

text \<open>An output without a marker, for the upload \<^verbatim>\<open>uploads/song.mp3\<close>.\<close>

theorem no_marker_gives_htdemucs_witness:
  "list_all (\<lambda>line. \<not> str_in ''Selected model'' line \<and> \<not> str_in ''default model'' line)
     (splitlines ''Separating track song.mp3'')
   \<and> infer_model_name ''Separating track song.mp3'' = ''htdemucs''
   \<and> path_str (final_output_path ''Separating track song.mp3'' ''uploads/song.mp3'') =
       ''separated_output/htdemucs/song''"
proof -
  have l: "splitlines ''Separating track song.mp3'' = [''Separating track song.mp3'']"
    by (simp add: splitlines_def is_linebreak_def)
  have a: "\<forall>line \<in> set (splitlines ''Separating track song.mp3'').
             \<not> str_in ''Selected model'' line \<and> \<not> str_in ''default model'' line"
    by (simp add: l)
  have s: "path_stem (Path ''uploads/song.mp3'') = ''song''"
    by (simp add: path_stem_def path_name_def Path_def rfind_def)
  note w = no_marker_gives_htdemucs[OF a, of "''uploads/song.mp3''"]
  from w have m: "infer_model_name ''Separating track song.mp3'' = ''htdemucs''"
    by (rule conjunct1)
  from w[THEN conjunct2, THEN conjunct2]
  have p: "path_str (final_output_path ''Separating track song.mp3'' ''uploads/song.mp3'') =
       ''separated_output/htdemucs/song''"
    by (simp add: s)
  from a have "list_all (\<lambda>line. \<not> str_in ''Selected model'' line \<and> \<not> str_in ''default model'' line)
     (splitlines ''Separating track song.mp3'')"
    by (simp add: list_all_iff)
  with m p show ?thesis by blast
qed



text \<open>
  Claim C2. Run from the command line with a file path as its argument, the program is
  claimed to run the separation and to report the output path or an error. The main block
  instead raises \<^verbatim>\<open>NameError\<close> for the name \<^verbatim>\<open>file_to_\<close> whenever an argument
  is given: the runner is not called and nothing is printed.
\<close>

theorem main_block_raises_name_error:
  assumes "2 \<le> length argv"
  shows "run_separation_main rt argv st = (Inl (NameError ''file_to_''), st)"
  using assms
  by (simp add: run_separation_main_def load_name_def run_separation_globals_def)

text \<open>The command line \<^verbatim>\<open>python run_separation.py song.mp3\<close>.\<close>

theorem main_block_raises_name_error_witness:
  "2 \<le> length [''run_separation.py'', ''song.mp3'']
   \<and> run_separation_main (example_runtime stub_mymodel) [''run_separation.py'', ''song.mp3'']
         example_process = (Inl (NameError ''file_to_''), example_process)"
proof -
  have l: "2 \<le> length [''run_separation.py'', ''song.mp3'']" by simp
  from main_block_raises_name_error[OF l] l show ?thesis by blast
qed






text \<open>
  Claim C4, as amended. The runner takes the first line of the captured standard output
  that contains \<^verbatim>\<open>Selected model\<close> or \<^verbatim>\<open>default model\<close>, takes what follows the
  last space character of that line (the last element of \<^verbatim>\<open>line.split(" ")\<close>) and
  strips leading and trailing quote and period characters from it; when that first marker
  line is \<^verbatim>\<open>Selected model is 'mymodel'.\<close> the model name is \<^verbatim>\<open>mymodel\<close>.
\<close>

theorem model_name_from_first_marker_line:
  assumes "splitlines out = pre @ line # post"
      and "\<forall>l \<in> set pre. \<not> str_in ''Selected model'' l \<and> \<not> str_in ''default model'' l"
      and "str_in ''Selected model'' line \<or> str_in ''default model'' line"
  shows "infer_model_name out = strip [CHR 0x27, CHR ''.''] (last (split_on CHR '' '' line))
       \<and> (line = ''Selected model is 'mymodel'.'' \<longrightarrow> infer_model_name out = ''mymodel'')"
proof -
  from assms(2) have "\<forall>l \<in> set pre. \<not> has_marker l"
    by (simp add: has_marker_def)
  moreover from assms(3) have "has_marker line"
    by (simp add: has_marker_def)
  ultimately have m: "infer_model_name out =
      strip [CHR 0x27, CHR ''.''] (last (split_on CHR '' '' line))"
    by (simp add: infer_model_name_def assms(1) scan_lines_first_marker)
  have "strip [CHR 0x27, CHR ''.''] (last (split_on CHR '' '' ''Selected model is 'mymodel'.''))
      = ''mymodel''"
    by (simp add: strip_def)
  with m show ?thesis by simp
qed

text \<open>An output of three lines whose second line is the first marker line.\<close>

theorem model_name_from_first_marker_line_witness:
  "splitlines ''Separating track song.mp3\<newline>Selected model is 'mymodel'.\<newline>default model: x'' =
     [''Separating track song.mp3''] @ ''Selected model is 'mymodel'.'' # [''default model: x'']
   \<and> list_all (\<lambda>l. \<not> str_in ''Selected model'' l \<and> \<not> str_in ''default model'' l)
         [''Separating track song.mp3'']
   \<and> str_in ''Selected model'' ''Selected model is 'mymodel'.''
   \<and> infer_model_name
         ''Separating track song.mp3\<newline>Selected model is 'mymodel'.\<newline>default model: x'' =
       ''mymodel''"
proof -
  have a: "splitlines ''Separating track song.mp3\<newline>Selected model is 'mymodel'.\<newline>default model: x'' =
     [''Separating track song.mp3''] @ ''Selected model is 'mymodel'.'' # [''default model: x'']"
    by (simp add: splitlines_def is_linebreak_def)
  have b: "\<forall>l \<in> set [''Separating track song.mp3''].
             \<not> str_in ''Selected model'' l \<and> \<not> str_in ''default model'' l"
    by simp
  have c: "str_in ''Selected model'' ''Selected model is 'mymodel'.'' \<or>
           str_in ''default model'' ''Selected model is 'mymodel'.''"
    by simp
  note w = model_name_from_first_marker_line[OF a b c]
  from w[THEN conjunct2] have d: "infer_model_name
         ''Separating track song.mp3\<newline>Selected model is 'mymodel'.\<newline>default model: x'' =
       ''mymodel''"
    by simp
  from b have b': "list_all (\<lambda>l. \<not> str_in ''Selected model'' l \<and> \<not> str_in ''default model'' l)
         [''Separating track song.mp3'']"
    by simp
  have c': "str_in ''Selected model'' ''Selected model is 'mymodel'.''" by simp
  from a b' c' d show ?thesis by blast
qed

text \<open>
  Claim C4 as stated fails. On a marker line whose last token follows a tab, and on one
  that ends with a space, the last whitespace-delimited token gives \<^verbatim>\<open>mymodel\<close>
  and the runner gives something else; and an output that contains the line
  \<^verbatim>\<open>Selected model is 'mymodel'.\<close> after an earlier marker line gives the model name
  of the earlier line.
\<close>

theorem last_whitespace_token_counterexample:
  "has_marker (''Selected model:'' @ [CHR 0x09] @ ''mymodel'')
   \<and> spec_model_name (''Selected model:'' @ [CHR 0x09] @ ''mymodel'') = ''mymodel''
   \<and> infer_model_name (''Selected model:'' @ [CHR 0x09] @ ''mymodel'') =
       ''model:'' @ [CHR 0x09] @ ''mymodel''
   \<and> spec_model_name ''Selected model is 'mymodel'. '' = ''mymodel''
   \<and> infer_model_name ''Selected model is 'mymodel'. '' = []
   \<and> ''Selected model is 'mymodel'.'' \<in>
       set (splitlines ''default model: x\<newline>Selected model is 'mymodel'.'')
   \<and> infer_model_name ''default model: x\<newline>Selected model is 'mymodel'.'' = ''x''"
proof -
  have 1: "has_marker (''Selected model:'' @ [CHR 0x09] @ ''mymodel'')"
    by (simp add: has_marker_def)
  have 2: "spec_model_name (''Selected model:'' @ [CHR 0x09] @ ''mymodel'') = ''mymodel''"
    by (simp add: spec_model_name_def is_whitespace_def strip_def)
  have 3: "infer_model_name (''Selected model:'' @ [CHR 0x09] @ ''mymodel'') =
       ''model:'' @ [CHR 0x09] @ ''mymodel''"
    by (simp add: infer_model_name_def splitlines_def is_linebreak_def has_marker_def strip_def)
  have 4: "spec_model_name ''Selected model is 'mymodel'. '' = ''mymodel''"
    by (simp add: spec_model_name_def is_whitespace_def strip_def)
  have 5: "infer_model_name ''Selected model is 'mymodel'. '' = []"
    by (simp add: infer_model_name_def splitlines_def is_linebreak_def has_marker_def strip_def)
  have 6: "splitlines ''default model: x\<newline>Selected model is 'mymodel'.'' =
      [''default model: x'', ''Selected model is 'mymodel'.'']"
    by (simp add: splitlines_def is_linebreak_def)
  have 7: "infer_model_name ''default model: x\<newline>Selected model is 'mymodel'.'' = ''x''"
    by (simp add: infer_model_name_def 6 has_marker_def strip_def)
  from 1 2 3 4 5 6 7 show ?thesis by simp
qed

end
